theory Spec2Isabelle
  imports Main
begin

section \<open>Data model\<close>

text \<open>
  The request bodies of \<^verbatim>\<open>/register\<close> and \<^verbatim>\<open>/login\<close> (\<^verbatim>\<open>UserCreate\<close>,
  \<^verbatim>\<open>UserLogin\<close>). The handlers of \<^verbatim>\<open>main.py\<close> read \<^verbatim>\<open>user.username\<close> and
  \<^verbatim>\<open>user.password\<close> of both, and nothing else.
\<close>

record UserCreate =
  username :: string
  password :: string

type_synonym UserLogin = UserCreate

text \<open>
  The stored account (\<^verbatim>\<open>models.User\<close>), with the columns that \<^verbatim>\<open>register\<close> sets:
  \<^verbatim>\<open>User(username=..., hashed_password=..., role="user")\<close>.
\<close>

record User =
  username :: string
  hashed_password :: string
  role :: string

text \<open>
  The Credential Store is the table of accounts, in insertion order;
  \<^verbatim>\<open>select(models.User)\<close> reads all of it.
\<close>

type_synonym db = "User list"

text \<open>
  What leaves a handler instead of a return value. \<^verbatim>\<open>HTTPException(status_code, detail)\<close>
  is what \<^verbatim>\<open>login\<close> raises; \<open>Unauthenticated\<close> and \<open>Forbidden\<close> are the failures of the
  access control gate; \<open>StorageError\<close> is an error of the store that a handler does
  not catch.
\<close>

datatype store_error = DuplicateIdentity

datatype exn =
    HTTPException nat string
  | Unauthenticated
  | Forbidden
  | StorageError store_error

text \<open>
  The status code of a response. A handler that returns answers 200 (no route of
  \<^verbatim>\<open>main.py\<close> sets another code); an \<^verbatim>\<open>HTTPException\<close> answers with its own code;
  \<open>Unauthenticated\<close> is 401 and \<open>Forbidden\<close> is 403; an exception that nothing catches
  is a generic server failure, 500.
\<close>

fun status_code :: "exn + 'a \<Rightarrow> nat" where
  "status_code (Inr _) = 200"
| "status_code (Inl (HTTPException code detail)) = code"
| "status_code (Inl Unauthenticated) = 401"
| "status_code (Inl Forbidden) = 403"
| "status_code (Inl (StorageError _)) = 500"

section \<open>Credential Store\<close>

text \<open>
  Modelled from the spec: \<^verbatim>\<open>crud.get_user_by_username\<close> is not part of the sources at
  hand. The Credential Store "exposes lookup-by-username": the account with that
  username, or nothing.
\<close>

definition get_user_by_username :: "db \<Rightarrow> string \<Rightarrow> User option" where
  "get_user_by_username db name = find (\<lambda>a. User.username a = name) db"

text \<open>
  Modelled from the spec: the table definition \<^verbatim>\<open>models.User\<close> and the session are not
  part of the sources at hand. \<^verbatim>\<open>db.add(new_user); await db.commit()\<close> inserts the
  account; "username uniqueness enforced by the Credential Store at insert time;
  violating insert fails with a DuplicateIdentity error". A failed commit leaves the
  table as it was.
\<close>

definition add_commit :: "db \<Rightarrow> User \<Rightarrow> store_error + db" where
  "add_commit db new_user =
     (if User.username new_user \<in> set (map User.username db) then Inl DuplicateIdentity
      else Inr (db @ [new_user]))"

section \<open>Serialisation of responses\<close>

text \<open>
  A JSON object with string values. A route without \<^verbatim>\<open>response_model\<close> encodes the
  returned \<^verbatim>\<open>User\<close> object with all of its columns; a route with
  \<^verbatim>\<open>response_model=M\<close> keeps the fields that \<open>M\<close> declares.
\<close>

type_synonym json_object = "(string \<times> string) list"

definition jsonable_encoder :: "User \<Rightarrow> json_object" where
  "jsonable_encoder u =
     [(''username'', User.username u),
      (''hashed_password'', hashed_password u),
      (''role'', role u)]"

definition response_model :: "string list \<Rightarrow> json_object \<Rightarrow> json_object" where
  "response_model field_names obj = filter (\<lambda>(k, v). k \<in> set field_names) obj"

section \<open>Handlers of main.py\<close>

text \<open>
  \<^verbatim>\<open>register\<close>. The hasher \<^verbatim>\<open>utils.get_password_hash\<close> is a parameter. The function
  has no \<^verbatim>\<open>try\<close>: an error of the commit leaves it as it is. The result is the
  returned object together with the table afterwards.
\<close>

definition register :: "(string \<Rightarrow> string) \<Rightarrow> db \<Rightarrow> UserCreate \<Rightarrow> (exn + User) \<times> db" where
  "register get_password_hash db user =
     (let hashed = get_password_hash (password user);
          new_user = \<lparr>User.username = UserCreate.username user,
                      hashed_password = hashed, role = ''user''\<rparr>
      in case add_commit db new_user of
           Inl e \<Rightarrow> (Inl (StorageError e), db)
         | Inr db' \<Rightarrow> (Inr new_user, db'))"

text \<open>
  The route \<^verbatim>\<open>@app.post("/register")\<close>: no \<^verbatim>\<open>response_model\<close>, so the returned
  \<^verbatim>\<open>new_user\<close> is encoded whole.
\<close>

definition register_route ::
  "(string \<Rightarrow> string) \<Rightarrow> db \<Rightarrow> UserCreate \<Rightarrow> (exn + json_object) \<times> db" where
  "register_route get_password_hash db user =
     (case register get_password_hash db user of
        (Inl e, db') \<Rightarrow> (Inl e, db')
      | (Inr new_user, db') \<Rightarrow> (Inr (jsonable_encoder new_user), db'))"

text \<open>
  \<^verbatim>\<open>login\<close>. \<^verbatim>\<open>utils.verify_password\<close> and \<^verbatim>\<open>utils.create_access_token\<close> are
  parameters; the latter is called with \<^verbatim>\<open>data={"sub": user.username}\<close>. The returned
  dictionary has the two keys \<^verbatim>\<open>access_token\<close> and \<^verbatim>\<open>token_type\<close>.
\<close>

type_synonym claims = "(string \<times> string) list"

record 'tok TokenResponse =
  access_token :: 'tok
  token_type :: string

definition login ::
  "(string \<Rightarrow> string \<Rightarrow> bool) \<Rightarrow> (claims \<Rightarrow> 'tok) \<Rightarrow> db \<Rightarrow> UserLogin
     \<Rightarrow> exn + 'tok TokenResponse" where
  "login verify_password create_access_token db user =
     (let db_user = get_user_by_username db (UserCreate.username user)
      in if (case db_user of
               None \<Rightarrow> True
             | Some u \<Rightarrow> \<not> verify_password (password user) (hashed_password u))
         then Inl (HTTPException 401 ''Invalid credentials'')
         else Inr \<lparr>access_token = create_access_token [(''sub'', UserCreate.username user)],
                   token_type = ''bearer''\<rparr>)"

text \<open>
  \<^verbatim>\<open>read_users_me\<close>, with \<^verbatim>\<open>response_model=schemas.UserOut\<close>. The fields of \<open>UserOut\<close>
  are a parameter; \<open>current_user\<close> is the outcome of the dependency
  \<^verbatim>\<open>get_current_user\<close>, whose failure answers the request before the handler runs.
\<close>

definition read_users_me :: "string list \<Rightarrow> exn + User \<Rightarrow> exn + json_object" where
  "read_users_me UserOut current_user =
     (case current_user of
        Inl e \<Rightarrow> Inl e
      | Inr u \<Rightarrow> Inr (response_model UserOut (jsonable_encoder u)))"

text \<open>
  \<^verbatim>\<open>get_all_users\<close>, the route \<^verbatim>\<open>/admin/users\<close>: no \<^verbatim>\<open>response_model\<close>;
  \<open>current_user\<close> is the outcome of the dependency \<^verbatim>\<open>require_role("admin")\<close>.
\<close>

definition get_all_users :: "db \<Rightarrow> exn + User \<Rightarrow> exn + json_object list" where
  "get_all_users db current_user =
     (case current_user of
        Inl e \<Rightarrow> Inl e
      | Inr _ \<Rightarrow> (let users = db in Inr (map jsonable_encoder users)))"

section \<open>Token Issuer/Verifier\<close>

text \<open>
  A token: the claims it asserts (the subject is the entry \<^verbatim>\<open>sub\<close>), the timestamps
  that bound its validity, and the signature over these. Times are seconds.
\<close>

record Token =
  claims :: claims
  issued_at :: int
  expires_at :: int
  signature :: string

datatype token_error = TokenExpired | TokenInvalid

text \<open>
  Modelled from the spec: \<^verbatim>\<open>utils.create_access_token\<close> is not part of the sources at
  hand. "issue(claims) -> token: embeds subject plus an expiry computed as issue-time
  + fixed TTL, signs with a server-wide secret using a standard signing algorithm".
  The signing algorithm \<open>sign\<close>, the secret, the TTL and the clock are parameters.
\<close>

definition issue ::
  "(string \<Rightarrow> claims \<Rightarrow> int \<Rightarrow> int \<Rightarrow> string) \<Rightarrow> string \<Rightarrow> int \<Rightarrow> int \<Rightarrow> claims \<Rightarrow> Token" where
  "issue sign secret ttl now c =
     \<lparr>claims = c, issued_at = now, expires_at = now + ttl,
      signature = sign secret c now (now + ttl)\<rparr>"

text \<open>
  Modelled from the spec: the verifier (in \<^verbatim>\<open>utils\<close>) is not part of the sources at
  hand. "verify(token) -> claims | error: fails with TokenExpired when past expiry,
  TokenInvalid when signature or structure malformed, otherwise returns the embedded
  claims", in this order; "a token is valid iff signature verifies against the
  current secret AND current time < expires_at". A \<open>Token\<close> has the structure by its
  type.
\<close>

definition verify ::
  "(string \<Rightarrow> claims \<Rightarrow> int \<Rightarrow> int \<Rightarrow> string) \<Rightarrow> string \<Rightarrow> int \<Rightarrow> Token
     \<Rightarrow> token_error + claims" where
  "verify sign secret now tok =
     (if expires_at tok \<le> now then Inl TokenExpired
      else if signature tok \<noteq> sign secret (claims tok) (issued_at tok) (expires_at tok)
      then Inl TokenInvalid
      else Inr (claims tok))"

section \<open>Access Control Gate\<close>

text \<open>
  Modelled from the spec: \<^verbatim>\<open>utils.get_current_user\<close> is not part of the sources at
  hand. "Authenticate: extract bearer token from the request, verify it, look up the
  Account by the returned subject. Fails with Unauthenticated if token missing/invalid
  or account no longer exists." The request carries a token or none.
\<close>

definition get_current_user ::
  "(string \<Rightarrow> claims \<Rightarrow> int \<Rightarrow> int \<Rightarrow> string) \<Rightarrow> string \<Rightarrow> int \<Rightarrow> db \<Rightarrow> Token option
     \<Rightarrow> exn + User" where
  "get_current_user sign secret now db bearer =
     (case bearer of
        None \<Rightarrow> Inl Unauthenticated
      | Some tok \<Rightarrow>
          (case verify sign secret now tok of
             Inl e \<Rightarrow> Inl Unauthenticated
           | Inr c \<Rightarrow>
               (case map_of c ''sub'' of
                  None \<Rightarrow> Inl Unauthenticated
                | Some subject \<Rightarrow>
                    (case get_user_by_username db subject of
                       None \<Rightarrow> Inl Unauthenticated
                     | Some account \<Rightarrow> Inr account))))"

text \<open>
  Modelled from the spec: \<^verbatim>\<open>utils.require_role\<close> is not part of the sources at hand.
  "Authorize(requiredRole): given an authenticated Account, fails with Forbidden if
  account.role != requiredRole"; a failure of the authentication passes through.
\<close>

definition require_role :: "string \<Rightarrow> exn + User \<Rightarrow> exn + User" where
  "require_role required_role current_user =
     (case current_user of
        Inl e \<Rightarrow> Inl e
      | Inr account \<Rightarrow>
          if role account \<noteq> required_role then Inl Forbidden else Inr account)"

text \<open>
  The route \<^verbatim>\<open>/admin/users\<close> with its dependency
  \<^verbatim>\<open>Depends(require_role("admin"))\<close> resolved from the request's token.
\<close>

definition admin_users_route ::
  "(string \<Rightarrow> claims \<Rightarrow> int \<Rightarrow> int \<Rightarrow> string) \<Rightarrow> string \<Rightarrow> int \<Rightarrow> db \<Rightarrow> Token option
     \<Rightarrow> exn + json_object list" where
  "admin_users_route sign secret now db bearer =
     get_all_users db (require_role ''admin'' (get_current_user sign secret now db bearer))"

section \<open>The store keeps usernames unique\<close>

lemma add_commit_distinct:
  assumes "distinct (map User.username db)" and "add_commit db a = Inr db'"
  shows "distinct (map User.username db')"
  using assms by (auto simp: add_commit_def split: if_splits)

lemma register_distinct:
  assumes "distinct (map User.username db)"
  shows "distinct (map User.username (snd (register h db user)))"
proof (cases "add_commit db \<lparr>User.username = UserCreate.username user,
                              hashed_password = h (password user), role = ''user''\<rparr>")
  case (Inl e)
  then show ?thesis using assms by (simp add: register_def)
next
  case (Inr db')
  then show ?thesis using add_commit_distinct [OF assms Inr] by (simp add: register_def)
qed

lemma count_distinct_username:
  assumes "distinct (map User.username db)" and "u \<in> set (map User.username db)"
  shows "length (filter (\<lambda>a. User.username a = u) db) = 1"
  using assms
proof (induction db)
  case Nil
  then show ?case by simp
next
  case (Cons a db)
  show ?case
  proof (cases "User.username a = u")
    case True
    with Cons.prems have "u \<notin> set (map User.username db)" by auto
    then have "filter (\<lambda>a. User.username a = u) db = []"
      by (auto simp: filter_empty_conv)
    with True show ?thesis by simp
  next
    case False
    with Cons show ?thesis by auto
  qed
qed

section \<open>Registration\<close>

text \<open>
  C6: every account that \<open>register\<close> creates has the role \<^verbatim>\<open>"user"\<close>: the returned
  account, which is the one row added to the table, and so every row of the table
  afterwards that was not there before.
\<close>

theorem register_role_user:
  assumes "register h db user = (Inr new_user, db')"
  shows "role new_user = ''user'' \<and> db' = db @ [new_user]
         \<and> (\<forall>a \<in> set db'. a \<notin> set db \<longrightarrow> role a = ''user'')"
  using assms by (auto simp: register_def add_commit_def Let_def split: if_splits)

theorem register_role_user_witness:
  "register (\<lambda>p. ''h:'' @ p) [] \<lparr>UserCreate.username = ''alice'', password = ''pw''\<rparr>
     = (Inr \<lparr>User.username = ''alice'', hashed_password = ''h:pw'', role = ''user''\<rparr>,
        [\<lparr>User.username = ''alice'', hashed_password = ''h:pw'', role = ''user''\<rparr>])
   \<and> role \<lparr>User.username = ''alice'', hashed_password = ''h:pw'', role = ''user''\<rparr> = ''user''"
proof -
  have r: "register (\<lambda>p. ''h:'' @ p) [] \<lparr>UserCreate.username = ''alice'', password = ''pw''\<rparr>
     = (Inr \<lparr>User.username = ''alice'', hashed_password = ''h:pw'', role = ''user''\<rparr>,
        [\<lparr>User.username = ''alice'', hashed_password = ''h:pw'', role = ''user''\<rparr>])"
    by (simp add: register_def add_commit_def Let_def)
  from register_role_user [OF r] r show ?thesis by simp
qed

text \<open>
  C1, as the code has it: when the table already holds an account with the username
  \<open>u\<close> (and usernames in it are unique), \<open>register\<close> with \<open>u\<close> fails with the store's
  \<open>DuplicateIdentity\<close>; the handler does not catch it and raises no
  \<^verbatim>\<open>HTTPException\<close>, so the response is the generic server failure 500; the table is
  unchanged and holds exactly one account with the username \<open>u\<close>.
\<close>

theorem register_duplicate:
  assumes "distinct (map User.username db)"
      and "UserCreate.username user \<in> set (map User.username db)"
  shows "register h db user = (Inl (StorageError DuplicateIdentity), db)
         \<and> status_code (fst (register h db user)) = 500
         \<and> length (filter (\<lambda>a. User.username a = UserCreate.username user)
                      (snd (register h db user))) = 1"
proof -
  have r: "register h db user = (Inl (StorageError DuplicateIdentity), db)"
    using assms(2) by (simp add: register_def add_commit_def Let_def)
  have "length (filter (\<lambda>a. User.username a = UserCreate.username user) db) = 1"
    using assms by (rule count_distinct_username)
  with r show ?thesis by simp
qed

theorem register_duplicate_witness:
  "distinct (map User.username
       [\<lparr>User.username = ''alice'', hashed_password = ''h:pw'', role = ''user''\<rparr>])
   \<and> ''alice'' \<in> set (map User.username
       [\<lparr>User.username = ''alice'', hashed_password = ''h:pw'', role = ''user''\<rparr>])
   \<and> register (\<lambda>p. ''h:'' @ p)
       [\<lparr>User.username = ''alice'', hashed_password = ''h:pw'', role = ''user''\<rparr>]
       \<lparr>UserCreate.username = ''alice'', password = ''other''\<rparr>
     = (Inl (StorageError DuplicateIdentity),
        [\<lparr>User.username = ''alice'', hashed_password = ''h:pw'', role = ''user''\<rparr>])"
proof -
  have d: "distinct (map User.username
       [\<lparr>User.username = ''alice'', hashed_password = ''h:pw'', role = ''user''\<rparr>])"
    by simp
  have m: "UserCreate.username \<lparr>UserCreate.username = ''alice'', password = ''other''\<rparr>
     \<in> set (map User.username
       [\<lparr>User.username = ''alice'', hashed_password = ''h:pw'', role = ''user''\<rparr>])"
    by simp
  from register_duplicate [OF d m, of "\<lambda>p. ''h:'' @ p"] d m show ?thesis by simp
qed

text \<open>
  C1, as the spec states it, fails: the second registration of \<^verbatim>\<open>alice\<close> is not
  answered with a 4xx status.
\<close>

theorem register_duplicate_not_4xx:
  "\<not> (400 \<le> status_code (fst (register (\<lambda>p. ''h:'' @ p)
              [\<lparr>User.username = ''alice'', hashed_password = ''h:pw'', role = ''user''\<rparr>]
              \<lparr>UserCreate.username = ''alice'', password = ''other''\<rparr>))
      \<and> status_code (fst (register (\<lambda>p. ''h:'' @ p)
              [\<lparr>User.username = ''alice'', hashed_password = ''h:pw'', role = ''user''\<rparr>]
              \<lparr>UserCreate.username = ''alice'', password = ''other''\<rparr>)) < 500)"
  by (simp add: register_def add_commit_def Let_def)

lemma register_route_body:
  assumes "fst (register_route h db user) = Inr body"
  shows "map_of body ''hashed_password'' = Some (h (password user))"
  using assms
  by (auto simp: register_route_def register_def add_commit_def jsonable_encoder_def Let_def
           split: if_splits)

text \<open>
  C2 fails on the code: the response of a successful \<^verbatim>\<open>/register\<close> is the whole
  account, the field \<^verbatim>\<open>hashed_password\<close> included. Registering \<^verbatim>\<open>alice\<close> in an empty
  table:
\<close>

theorem register_route_exposes_hash:
  "fst (register_route (\<lambda>p. ''h:'' @ p) []
          \<lparr>UserCreate.username = ''alice'', password = ''pw''\<rparr>)
     = Inr [(''username'', ''alice''), (''hashed_password'', ''h:pw''), (''role'', ''user'')]"
  by (simp add: register_route_def register_def add_commit_def jsonable_encoder_def Let_def)

section \<open>Login\<close>

text \<open>
  C3: a login with a username that the store does not hold and a login with a
  username that it holds but a password that fails verification get one and the same
  response: the \<^verbatim>\<open>HTTPException\<close> with status 401 and detail
  \<^verbatim>\<open>"Invalid credentials"\<close>.
\<close>

theorem login_failures_equal:
  assumes "get_user_by_username db1 (UserCreate.username user1) = None"
      and "get_user_by_username db2 (UserCreate.username user2) = Some account"
      and "\<not> verify_password (password user2) (hashed_password account)"
  shows "login verify_password create_access_token db1 user1
           = login verify_password create_access_token db2 user2
         \<and> login verify_password create_access_token db1 user1
           = Inl (HTTPException 401 ''Invalid credentials'')
         \<and> status_code (login verify_password create_access_token db2 user2) = 401"
  using assms by (simp add: login_def)

theorem login_failures_equal_witness:
  "get_user_by_username
       [\<lparr>User.username = ''alice'', hashed_password = ''h:pw'', role = ''user''\<rparr>] ''bob'' = None
   \<and> get_user_by_username
       [\<lparr>User.username = ''alice'', hashed_password = ''h:pw'', role = ''user''\<rparr>] ''alice''
     = Some \<lparr>User.username = ''alice'', hashed_password = ''h:pw'', role = ''user''\<rparr>
   \<and> \<not> (''h:pw'' = ''h:'' @ ''wrong'')
   \<and> login (\<lambda>p d. d = ''h:'' @ p) (\<lambda>c. c)
       [\<lparr>User.username = ''alice'', hashed_password = ''h:pw'', role = ''user''\<rparr>]
       \<lparr>UserCreate.username = ''bob'', password = ''pw''\<rparr>
     = login (\<lambda>p d. d = ''h:'' @ p) (\<lambda>c. c)
       [\<lparr>User.username = ''alice'', hashed_password = ''h:pw'', role = ''user''\<rparr>]
       \<lparr>UserCreate.username = ''alice'', password = ''wrong''\<rparr>"
  using login_failures_equal
    [where verify_password = "\<lambda>p d. d = ''h:'' @ p" and create_access_token = "\<lambda>c. c"
       and ?db1.0 = "[\<lparr>User.username = ''alice'', hashed_password = ''h:pw'', role = ''user''\<rparr>]"
       and ?db2.0 = "[\<lparr>User.username = ''alice'', hashed_password = ''h:pw'', role = ''user''\<rparr>]"
       and ?user1.0 = "\<lparr>UserCreate.username = ''bob'', password = ''pw''\<rparr>"
       and ?user2.0 = "\<lparr>UserCreate.username = ''alice'', password = ''wrong''\<rparr>"
       and account = "\<lparr>User.username = ''alice'', hashed_password = ''h:pw'', role = ''user''\<rparr>"]
  by (simp add: get_user_by_username_def)

text \<open>
  C5: a login whose username the store holds and whose password verifies against
  the stored hash returns, with status 200, the dictionary of \<^verbatim>\<open>access_token\<close> and
  \<^verbatim>\<open>token_type = "bearer"\<close>, where the token is the one that
  \<^verbatim>\<open>create_access_token\<close> makes of the claims \<^verbatim>\<open>{"sub": username}\<close>.
\<close>

theorem login_success:
  assumes "get_user_by_username db (UserCreate.username user) = Some account"
      and "verify_password (password user) (hashed_password account)"
  shows "login verify_password create_access_token db user
           = Inr \<lparr>access_token = create_access_token [(''sub'', UserCreate.username user)],
                  token_type = ''bearer''\<rparr>
         \<and> status_code (login verify_password create_access_token db user) = 200"
  using assms by (simp add: login_def)

theorem login_success_witness:
  "login (\<lambda>p d. d = ''h:'' @ p) (\<lambda>c. c)
       [\<lparr>User.username = ''alice'', hashed_password = ''h:pw'', role = ''user''\<rparr>]
       \<lparr>UserCreate.username = ''alice'', password = ''pw''\<rparr>
     = Inr \<lparr>access_token = [(''sub'', ''alice'')], token_type = ''bearer''\<rparr>"
  using login_success
    [where verify_password = "\<lambda>p d. d = ''h:'' @ p" and create_access_token = "\<lambda>c. c"
       and db = "[\<lparr>User.username = ''alice'', hashed_password = ''h:pw'', role = ''user''\<rparr>]"
       and user = "\<lparr>UserCreate.username = ''alice'', password = ''pw''\<rparr>"
       and account = "\<lparr>User.username = ''alice'', hashed_password = ''h:pw'', role = ''user''\<rparr>"]
  by (simp add: get_user_by_username_def)

section \<open>Tokens\<close>

text \<open>
  C7: for all claims \<open>c\<close>, verifying the token that \<open>issue\<close> makes of \<open>c\<close> at a time
  before its expiry (issue time plus TTL), with the same secret, returns \<open>c\<close> itself.
\<close>

theorem verify_issue:
  assumes "now < issued + ttl"
  shows "verify sign secret now (issue sign secret ttl issued c) = Inr c"
  using assms by (simp add: verify_def issue_def)

theorem verify_issue_witness:
  "(1500::int) < 1000 + 1800
   \<and> verify (\<lambda>k c i e. k @ concat (map snd c)) ''s3cret'' 1500
        (issue (\<lambda>k c i e. k @ concat (map snd c)) ''s3cret'' 1800 1000 [(''sub'', ''alice'')])
     = Inr [(''sub'', ''alice'')]"
proof -
  have h: "(1500::int) < 1000 + 1800" by simp
  from verify_issue [OF h] h show ?thesis by simp
qed

text \<open>
  C8: a token verified at a time at or after its expiry yields \<open>TokenExpired\<close>; and
  whichever error the verifier gives, \<open>TokenExpired\<close> or \<open>TokenInvalid\<close>, the
  authentication answers \<open>Unauthenticated\<close>, status 401, and so do the routes behind
  it: the two errors give the same response.
\<close>

theorem token_errors_unauthenticated:
  "(expires_at tok \<le> now \<longrightarrow> verify sign secret now tok = Inl TokenExpired)
   \<and> (verify sign secret now tok = Inl e \<longrightarrow>
        get_current_user sign secret now db (Some tok) = Inl Unauthenticated
        \<and> status_code (get_current_user sign secret now db (Some tok)) = 401
        \<and> read_users_me UserOut (get_current_user sign secret now db (Some tok))
            = Inl Unauthenticated
        \<and> admin_users_route sign secret now db (Some tok) = Inl Unauthenticated)"
  by (simp add: verify_def get_current_user_def read_users_me_def admin_users_route_def
        require_role_def get_all_users_def)

theorem token_errors_unauthenticated_witness:
  "verify (\<lambda>k c i e. k) ''s3cret'' 2800
      \<lparr>claims = [(''sub'', ''alice'')], issued_at = 1000, expires_at = 2800,
        signature = ''s3cret''\<rparr> = Inl TokenExpired
   \<and> verify (\<lambda>k c i e. k) ''s3cret'' 1500
      \<lparr>claims = [(''sub'', ''alice'')], issued_at = 1000, expires_at = 2800,
        signature = ''forged''\<rparr> = Inl TokenInvalid
   \<and> get_current_user (\<lambda>k c i e. k) ''s3cret'' 2800 []
      (Some \<lparr>claims = [(''sub'', ''alice'')], issued_at = 1000, expires_at = 2800,
        signature = ''s3cret''\<rparr>)
     = get_current_user (\<lambda>k c i e. k) ''s3cret'' 1500 []
      (Some \<lparr>claims = [(''sub'', ''alice'')], issued_at = 1000, expires_at = 2800,
        signature = ''forged''\<rparr>)"
proof -
  let ?good = "\<lparr>claims = [(''sub'', ''alice'')], issued_at = 1000, expires_at = 2800,
        signature = ''s3cret''\<rparr>"
  let ?forged = "\<lparr>claims = [(''sub'', ''alice'')], issued_at = 1000, expires_at = 2800,
        signature = ''forged''\<rparr>"
  have x: "verify (\<lambda>k c i e. k) ''s3cret'' 2800 ?good = Inl TokenExpired"
    using token_errors_unauthenticated
      [where tok = ?good and now = 2800 and sign = "\<lambda>k c i e. k" and secret = "''s3cret''"]
    by simp
  have i: "verify (\<lambda>k c i e. k) ''s3cret'' 1500 ?forged = Inl TokenInvalid"
    by (simp add: verify_def)
  have "get_current_user (\<lambda>k c i e. k) ''s3cret'' 2800 [] (Some ?good) = Inl Unauthenticated"
    using token_errors_unauthenticated
      [where tok = ?good and now = 2800 and sign = "\<lambda>k c i e. k" and secret = "''s3cret''"
         and e = TokenExpired and db = "[]"] x
    by simp
  moreover
  have "get_current_user (\<lambda>k c i e. k) ''s3cret'' 1500 [] (Some ?forged) = Inl Unauthenticated"
    using token_errors_unauthenticated
      [where tok = ?forged and now = 1500 and sign = "\<lambda>k c i e. k" and secret = "''s3cret''"
         and e = TokenInvalid and db = "[]"] i
    by simp
  ultimately show ?thesis using x i by simp
qed

section \<open>Admin listing\<close>

text \<open>
  C4: a request to \<^verbatim>\<open>/admin/users\<close> with a valid token whose account has a role
  other than \<^verbatim>\<open>"admin"\<close> is answered \<open>Forbidden\<close>, 403; with a valid token whose
  account has the role \<^verbatim>\<open>"admin"\<close> it is answered 200 with every account of the
  store, in the order of the table.
\<close>

theorem admin_users_gate:
  assumes "verify sign secret now tok = Inr c"
      and "map_of c ''sub'' = Some subject"
      and "get_user_by_username db subject = Some account"
  shows "(role account \<noteq> ''admin'' \<longrightarrow>
            admin_users_route sign secret now db (Some tok) = Inl Forbidden
            \<and> status_code (admin_users_route sign secret now db (Some tok)) = 403)
         \<and> (role account = ''admin'' \<longrightarrow>
            admin_users_route sign secret now db (Some tok) = Inr (map jsonable_encoder db)
            \<and> status_code (admin_users_route sign secret now db (Some tok)) = 200)"
  using assms
  by (simp add: admin_users_route_def get_current_user_def require_role_def get_all_users_def)

theorem admin_users_gate_witness:
  "admin_users_route (\<lambda>k c i e. k) ''s3cret'' 1500
      [\<lparr>User.username = ''root'', hashed_password = ''h:r'', role = ''admin''\<rparr>,
       \<lparr>User.username = ''alice'', hashed_password = ''h:pw'', role = ''user''\<rparr>]
      (Some \<lparr>claims = [(''sub'', ''alice'')], issued_at = 1000, expires_at = 2800,
              signature = ''s3cret''\<rparr>) = Inl Forbidden
   \<and> admin_users_route (\<lambda>k c i e. k) ''s3cret'' 1500
      [\<lparr>User.username = ''root'', hashed_password = ''h:r'', role = ''admin''\<rparr>,
       \<lparr>User.username = ''alice'', hashed_password = ''h:pw'', role = ''user''\<rparr>]
      (Some \<lparr>claims = [(''sub'', ''root'')], issued_at = 1000, expires_at = 2800,
              signature = ''s3cret''\<rparr>)
     = Inr [[(''username'', ''root''), (''hashed_password'', ''h:r''), (''role'', ''admin'')],
            [(''username'', ''alice''), (''hashed_password'', ''h:pw''), (''role'', ''user'')]]"
proof -
  let ?db = "[\<lparr>User.username = ''root'', hashed_password = ''h:r'', role = ''admin''\<rparr>,
       \<lparr>User.username = ''alice'', hashed_password = ''h:pw'', role = ''user''\<rparr>]"
  have "admin_users_route (\<lambda>k c i e. k) ''s3cret'' 1500 ?db
      (Some \<lparr>claims = [(''sub'', ''alice'')], issued_at = 1000, expires_at = 2800,
              signature = ''s3cret''\<rparr>) = Inl Forbidden"
    using admin_users_gate
      [where sign = "\<lambda>k c i e. k" and secret = "''s3cret''" and now = 1500 and db = ?db
         and tok = "\<lparr>claims = [(''sub'', ''alice'')], issued_at = 1000, expires_at = 2800,
              signature = ''s3cret''\<rparr>"
         and c = "[(''sub'', ''alice'')]" and subject = "''alice''"
         and account = "\<lparr>User.username = ''alice'', hashed_password = ''h:pw'', role = ''user''\<rparr>"]
    by (simp add: verify_def get_user_by_username_def)
  moreover
  have "admin_users_route (\<lambda>k c i e. k) ''s3cret'' 1500 ?db
      (Some \<lparr>claims = [(''sub'', ''root'')], issued_at = 1000, expires_at = 2800,
              signature = ''s3cret''\<rparr>) = Inr (map jsonable_encoder ?db)"
    using admin_users_gate
      [where sign = "\<lambda>k c i e. k" and secret = "''s3cret''" and now = 1500 and db = ?db
         and tok = "\<lparr>claims = [(''sub'', ''root'')], issued_at = 1000, expires_at = 2800,
              signature = ''s3cret''\<rparr>"
         and c = "[(''sub'', ''root'')]" and subject = "''root''"
         and account = "\<lparr>User.username = ''root'', hashed_password = ''h:r'', role = ''admin''\<rparr>"]
    by (simp add: verify_def get_user_by_username_def)
  ultimately show ?thesis by (simp add: jsonable_encoder_def)
qed

text \<open>
  C10: a successful \<^verbatim>\<open>/admin/users\<close> answers with the encoding of every stored
  account as it is, so the entry of each account carries its \<^verbatim>\<open>hashed_password\<close>;
  \<^verbatim>\<open>/users/me\<close> instead keeps the fields of its response model only, and carries no
  \<^verbatim>\<open>hashed_password\<close> when the response model does not declare one.
\<close>

theorem admin_listing_raw:
  assumes "get_all_users db current_user = Inr body"
  shows "body = map jsonable_encoder db
         \<and> (\<forall>i < length db. map_of (body ! i) ''hashed_password''
                               = Some (hashed_password (db ! i)))
         \<and> read_users_me UserOut (Inr u) = Inr (response_model UserOut (jsonable_encoder u))
         \<and> (''hashed_password'' \<notin> set UserOut \<longrightarrow>
              map_of (response_model UserOut (jsonable_encoder u)) ''hashed_password'' = None)"
proof -
  have b: "body = map jsonable_encoder db"
    using assms by (auto simp: get_all_users_def split: sum.splits)
  have "\<forall>i < length db. map_of (map jsonable_encoder db ! i) ''hashed_password''
                               = Some (hashed_password (db ! i))"
    by (simp add: jsonable_encoder_def)
  moreover
  have "''hashed_password'' \<notin> set UserOut \<longrightarrow>
          map_of (response_model UserOut (jsonable_encoder u)) ''hashed_password'' = None"
    by (simp add: response_model_def jsonable_encoder_def)
  ultimately show ?thesis using b by (simp add: read_users_me_def)
qed

theorem admin_listing_raw_witness:
  "get_all_users
      [\<lparr>User.username = ''root'', hashed_password = ''h:r'', role = ''admin''\<rparr>,
       \<lparr>User.username = ''alice'', hashed_password = ''h:pw'', role = ''user''\<rparr>]
      (Inr \<lparr>User.username = ''root'', hashed_password = ''h:r'', role = ''admin''\<rparr>)
     = Inr [[(''username'', ''root''), (''hashed_password'', ''h:r''), (''role'', ''admin'')],
            [(''username'', ''alice''), (''hashed_password'', ''h:pw''), (''role'', ''user'')]]
   \<and> map_of ([[(''username'', ''root''), (''hashed_password'', ''h:r''), (''role'', ''admin'')],
            [(''username'', ''alice''), (''hashed_password'', ''h:pw''), (''role'', ''user'')]] ! 1)
        ''hashed_password'' = Some ''h:pw''
   \<and> ''hashed_password'' \<notin> set [''username'', ''role'']
   \<and> map_of (response_model [''username'', ''role'']
        (jsonable_encoder \<lparr>User.username = ''alice'', hashed_password = ''h:pw'', role = ''user''\<rparr>))
        ''hashed_password'' = None"
proof -
  let ?db = "[\<lparr>User.username = ''root'', hashed_password = ''h:r'', role = ''admin''\<rparr>,
       \<lparr>User.username = ''alice'', hashed_password = ''h:pw'', role = ''user''\<rparr>]"
  let ?body = "[[(''username'', ''root''), (''hashed_password'', ''h:r''), (''role'', ''admin'')],
            [(''username'', ''alice''), (''hashed_password'', ''h:pw''), (''role'', ''user'')]]"
  have g: "get_all_users ?db
      (Inr \<lparr>User.username = ''root'', hashed_password = ''h:r'', role = ''admin''\<rparr>) = Inr ?body"
    by (simp add: get_all_users_def jsonable_encoder_def)
  have n: "''hashed_password'' \<notin> set [''username'', ''role'']" by simp
  note t = admin_listing_raw [OF g, of "[''username'', ''role'']"
      "\<lparr>User.username = ''alice'', hashed_password = ''h:pw'', role = ''user''\<rparr>"]
  from t have "\<forall>i < length ?db. map_of (?body ! i) ''hashed_password''
                               = Some (hashed_password (?db ! i))"
    by blast
  then have "1 < length ?db \<longrightarrow> map_of (?body ! 1) ''hashed_password''
                               = Some (hashed_password (?db ! 1))"
    by (rule spec)
  then have h: "map_of (?body ! 1) ''hashed_password'' = Some ''h:pw''"
    by simp
  from t n have "map_of (response_model [''username'', ''role'']
        (jsonable_encoder \<lparr>User.username = ''alice'', hashed_password = ''h:pw'', role = ''user''\<rparr>))
        ''hashed_password'' = None"
    by blast
  with g h n show ?thesis by blast
qed

end
